theory Spec2Isabelle
  imports Main
begin

section \<open>Python strings\<close>

text \<open>
  Python \<open>str\<close> values are modelled as \<open>string\<close>. The helpers below are the
  string operations that \<open>CommandRunner._execute\<close> and \<open>App.process_queue\<close> use:
  \<open>str.strip\<close>, truthiness, the \<open>in\<close> operator, \<open>' '.join\<close> and the formatting of an
  integer inside an f-string.
\<close>

definition NL :: char where
  "NL = CHR 0x0A"

definition CR :: char where
  "CR = CHR 0x0D"

text \<open>
  Text mode with universal newlines, as \<open>Popen(..., text=True)\<close> and
  \<open>open(cache_path, 'r', encoding='utf-8')\<close> read: the line endings CR LF and CR
  arrive as LF.
\<close>

fun universal_newlines :: "string \<Rightarrow> string" where
  "universal_newlines [] = []"
| "universal_newlines [c] = (if c = CR then [NL] else [c])"
| "universal_newlines (c # d # cs) =
     (if c = CR \<and> d = NL then NL # universal_newlines cs
      else if c = CR then NL # universal_newlines (d # cs)
      else c # universal_newlines (d # cs))"

text \<open>\<open>str.isspace\<close> on the code points below 256.\<close>

definition isspace :: "char \<Rightarrow> bool" where
  "isspace c = (c \<in> set [CHR 0x09, CHR 0x0A, CHR 0x0B, CHR 0x0C, CHR 0x0D,
                           CHR 0x1C, CHR 0x1D, CHR 0x1E, CHR 0x1F, CHR 0x20,
                           CHR 0x85, CHR 0xA0])"

definition strip :: "string \<Rightarrow> string" where
  "strip s = dropWhile isspace (rev (dropWhile isspace (rev s)))"

text \<open>Truthiness of a \<open>str\<close> and of an \<open>Optional[str]\<close>.\<close>

definition truthy :: "string \<Rightarrow> bool" where
  "truthy s = (s \<noteq> [])"

definition truthy_opt :: "string option \<Rightarrow> bool" where
  "truthy_opt p = (case p of None \<Rightarrow> False | Some s \<Rightarrow> truthy s)"

fun startswith :: "string \<Rightarrow> string \<Rightarrow> bool" where
  "startswith s [] = True"
| "startswith [] (p # ps) = False"
| "startswith (c # cs) (p # ps) = (c = p \<and> startswith cs ps)"

text \<open>\<open>needle in hay\<close>.\<close>

fun str_in :: "string \<Rightarrow> string \<Rightarrow> bool" where
  "str_in needle [] = (needle = [])"
| "str_in needle (c # cs) = (startswith (c # cs) needle \<or> str_in needle cs)"

text \<open>\<open>' '.join(command)\<close>.\<close>

fun join_sp :: "string list \<Rightarrow> string" where
  "join_sp [] = []"
| "join_sp [x] = x"
| "join_sp (x # y # ys) = x @ '' '' @ join_sp (y # ys)"

text \<open>\<open>str(i)\<close> for an integer: the decimal digits, after the sign.\<close>

definition digit :: "nat \<Rightarrow> char" where
  "digit d = ''0123456789'' ! d"

fun str_nat :: "nat \<Rightarrow> string" where
  "str_nat n = (if n < 10 then [digit n] else str_nat (n div 10) @ [digit (n mod 10)])"

definition str_int :: "int \<Rightarrow> string" where
  "str_int i = (if i < 0 then ''-'' @ str_nat (nat (- i)) else str_nat (nat i))"

text \<open>\<open>os.path.join(a, b)\<close> on POSIX.\<close>

definition path_join :: "string \<Rightarrow> string \<Rightarrow> string" where
  "path_join a b =
     (if startswith b ''/'' then b
      else if a = [] \<or> last a = CHR ''/'' then a @ b
      else a @ ''/'' @ b)"

section \<open>The environment of a command\<close>

text \<open>
  What \<open>subprocess.Popen\<close>, the read loop and \<open>process.wait\<close> do, seen from
  \<open>_execute\<close>: \<open>Popen\<close> raises \<open>FileNotFoundError\<close>; or \<open>Popen\<close> raises another
  exception; or the process is started and an exception is raised after a number of lines
  were read; or the process ends with a return code after all of its lines were read.
\<close>

datatype outcome =
    FileNotFound
  | SpawnFailed string
  | Failed "string list" string
  | Exited "string list" int

text \<open>What opening and writing the cache file does.\<close>

datatype io_fault = NoFault | NotFoundFault | OtherFault string

text \<open>
  The operating system and the user, as \<open>_execute\<close> meets them: the cache directory
  (\<open>Config.CACHE_DIR\<close>), the answer of the password dialog when it is shown for a
  command (\<open>None\<close> is Cancel or closing the window, \<open>Some s\<close> is OK with the text \<open>s\<close>
  entered), the behaviour of the process started with an argument vector and the text
  written to its input, and the fault of writing a cache file.
\<close>

record os =
  CACHE_DIR :: string
  get_input :: "string list \<Rightarrow> string option"
  popen :: "string list \<Rightarrow> string option \<Rightarrow> outcome"
  open_w :: "string \<Rightarrow> io_fault"

text \<open>
  A file below the cache directory: the text in it, or a file that exists and that
  \<open>open(cache_path, 'r', encoding='utf-8')\<close> and \<open>f.read()\<close> cannot read or decode. A file
  that \<open>_execute\<close> has written holds the text it wrote.
\<close>

datatype entry = Text string | Unreadable

text \<open>The files below the cache directory, by path.\<close>

type_synonym files = "string \<rightharpoonup> entry"

text \<open>
  Everything a worker does that is visible outside it, in program order: the calls
  posted to the UI thread with \<open>app.after(0, ...)\<close>, the password dialog, the call of
  \<open>subprocess.Popen\<close> and the text written to the input of the process.
\<close>

datatype effect =
    SetBusy bool
  | UpdateStatus string
  | LogConsole string
  | LogLine string
  | ShowError string string
  | Complete string "string option"
  | AskPassword
  | Popen "string list"
  | WriteStdin string
  | OpenDialog string
  | QueueButton string
  | DialogComplete
  | RefreshInstalled bool

text \<open>The arguments of \<open>_execute\<close>; an optional callable is the flag that it is given.\<close>

record request =
  command :: "string list"
  callback :: bool
  log_callback :: bool
  source :: "string option"
  cache_key :: "string option"
  force_refresh :: bool
  requires_sudo :: bool
  set_global_busy :: bool

record result =
  trace :: "effect list"
  files_of :: files

section \<open>CommandRunner._execute\<close>

text \<open>\<open>cache_path = os.path.join(Config.CACHE_DIR, cache_key) if cache_key else None\<close>\<close>

definition cache_path :: "os \<Rightarrow> request \<Rightarrow> string option" where
  "cache_path e r =
     (case cache_key r of
        None \<Rightarrow> None
      | Some k \<Rightarrow> if truthy k then Some (path_join (CACHE_DIR e) k) else None)"

text \<open>
  \<open>Popen\<close> takes the executable from \<open>args[0]\<close>: an empty argument vector raises
  \<open>IndexError\<close> before anything is started.
\<close>

definition spawn :: "os \<Rightarrow> string list \<Rightarrow> string option \<Rightarrow> outcome" where
  "spawn e cmd inp =
     (if cmd = [] then SpawnFailed ''list index out of range'' else popen e cmd inp)"

text \<open>
  \<open>for line in iter(process.stdout.readline, '')\<close>: the loop ends at the first empty
  read, and the stream is in text mode (\<open>text=True\<close>), so no line holds a carriage return.
\<close>

definition read_lines :: "string list \<Rightarrow> string list" where
  "read_lines ls = takeWhile (\<lambda>l. l \<noteq> []) (map universal_newlines ls)"

definition only_if :: "bool \<Rightarrow> 'a list \<Rightarrow> 'a list" where
  "only_if b xs = (if b then xs else [])"

text \<open>The handler of \<open>except FileNotFoundError\<close>.\<close>

definition on_not_found :: "string list \<Rightarrow> effect list" where
  "on_not_found cmd =
     (let msg = ''Error: Command not found - '' @ (case cmd of [] \<Rightarrow> [] | c # _ \<Rightarrow> c) @ ''.''
      in [LogConsole msg, ShowError ''Command Not Found'' msg])"

text \<open>The handler of \<open>except Exception as e\<close>.\<close>

definition on_exception :: "request \<Rightarrow> string \<Rightarrow> effect list" where
  "on_exception r e =
     (let msg = ''An unexpected error occurred: '' @ e
      in [LogConsole msg] @ only_if (log_callback r) [LogLine (msg @ [NL])])"

text \<open>The check of the captured output after \<open>process.wait()\<close>.\<close>

definition check_errors :: "int \<Rightarrow> string \<Rightarrow> effect list" where
  "check_errors returncode output_str =
     (if returncode \<noteq> 0 \<and> str_in ''incorrect password'' output_str then
        [LogConsole ''Error: Incorrect password for sudo.'',
         ShowError ''Authentication Failed'' ''The password you entered was incorrect.'']
      else if returncode \<noteq> 0 then
        [LogConsole (''Process exited with code '' @ str_int returncode)]
      else [])"

text \<open>
  \<open>if password and process.stdin: process.stdin.write(f"{password}\n")\<close>: the text
  written to the input of the process, if any. A failure of the write is swallowed by the
  inner \<open>except (IOError, BrokenPipeError): pass\<close>.
\<close>

definition stdin_text :: "string option \<Rightarrow> string option" where
  "stdin_text password =
     (case password of
        None \<Rightarrow> None
      | Some pw \<Rightarrow> if truthy pw then Some (pw @ [NL]) else None)"

text \<open>What starting the process does: the call of \<open>Popen\<close>, then the password, if any.\<close>

definition started :: "string list \<Rightarrow> string option \<Rightarrow> effect list" where
  "started cmd password =
     [Popen cmd] @ (case stdin_text password of None \<Rightarrow> [] | Some t \<Rightarrow> [WriteStdin t])"

text \<open>
  \<open>if cache_path and output_str.strip(): with open(cache_path, 'w') ... f.write(output_str)\<close>,
  inside the \<open>try\<close>: the file is written, or the fault of writing it reaches one of the
  two handlers.
\<close>

definition cache_put ::
  "os \<Rightarrow> files \<Rightarrow> request \<Rightarrow> string list \<Rightarrow> string \<Rightarrow> effect list \<times> files" where
  "cache_put e fs r cmd output_str =
     (case cache_path e r of
        None \<Rightarrow> ([], fs)
      | Some p \<Rightarrow>
          if truthy (strip output_str) then
            (case open_w e p of
               NoFault \<Rightarrow> ([], fs(p \<mapsto> Text output_str))
             | NotFoundFault \<Rightarrow> (on_not_found cmd, fs)
             | OtherFault err \<Rightarrow> (on_exception r err, fs))
          else ([], fs))"

text \<open>
  The body of the \<open>try\<close> with its two handlers: the effects, the files afterwards and
  \<open>output_str\<close> (\<open>None\<close> when the exception came before it was assigned).
\<close>

definition try_run ::
  "os \<Rightarrow> files \<Rightarrow> request \<Rightarrow> string list \<Rightarrow> string option
     \<Rightarrow> effect list \<times> files \<times> string option" where
  "try_run e fs r cmd password =
     (case spawn e cmd (stdin_text password) of
        FileNotFound \<Rightarrow> ([Popen cmd] @ on_not_found cmd, fs, None)
      | SpawnFailed err \<Rightarrow> ([Popen cmd] @ on_exception r err, fs, None)
      | Failed ls err \<Rightarrow>
          (started cmd password @ only_if (log_callback r) (map LogLine (read_lines ls))
             @ on_exception r err,
           fs, None)
      | Exited ls returncode \<Rightarrow>
          (let full_output = read_lines ls;
               output_str = concat full_output;
               (w, fs') = cache_put e fs r cmd output_str
           in (started cmd password @ only_if (log_callback r) (map LogLine full_output)
                 @ check_errors returncode output_str @ w,
               fs', Some output_str)))"

text \<open>
  \<open>if cache_path and os.path.exists(cache_path) and not force_refresh\<close>: the cache file
  when the condition holds.
\<close>

definition cache_hit :: "os \<Rightarrow> files \<Rightarrow> request \<Rightarrow> entry option" where
  "cache_hit e fs r =
     (case cache_path e r of
        None \<Rightarrow> None
      | Some p \<Rightarrow> if force_refresh r then None else fs p)"

text \<open>
  The part of \<open>_execute\<close> after the password: the cache or the process. The cache file
  is opened and read before the \<open>try\<close>, so an exception of the read is caught by
  nothing and ends the worker: the result is then \<open>None\<close>.
\<close>

definition run_or_cache ::
  "os \<Rightarrow> files \<Rightarrow> request \<Rightarrow> string list \<Rightarrow> string option
     \<Rightarrow> (effect list \<times> files \<times> string option) option" where
  "run_or_cache e fs r cmd password =
     (case cache_hit e fs r of
        Some Unreadable \<Rightarrow> None
      | Some (Text content) \<Rightarrow>
          (let output_str = universal_newlines content
           in Some (only_if (log_callback r) [LogLine output_str]
                      @ [UpdateStatus ''Ready (from cache)''],
                    fs, Some output_str))
      | None \<Rightarrow>
          (let cmd_str = join_sp cmd;
               (t, fs', out) = try_run e fs r cmd password
           in Some ([UpdateStatus (''Running: '' @ cmd_str),
                     LogConsole (''Running: '' @ cmd_str)]
                      @ t @ [UpdateStatus ''Ready''],
                    fs', out)))"

text \<open>
  \<open>password\<close>: the answer of the dialog, shown only for a request with
  \<open>requires_sudo\<close>; \<open>if not password\<close> then holds for \<open>None\<close> and for the empty string.
\<close>

definition password_of :: "os \<Rightarrow> request \<Rightarrow> string option" where
  "password_of e r = (if requires_sudo r then get_input e (command r) else None)"

definition cancelled :: "os \<Rightarrow> request \<Rightarrow> bool" where
  "cancelled e r = (requires_sudo r \<and> \<not> truthy_opt (password_of e r))"

text \<open>\<open>command = ["sudo", "-S"] + command\<close> for a request with \<open>requires_sudo\<close>.\<close>

definition elevated :: "request \<Rightarrow> string list" where
  "elevated r = (if requires_sudo r then [''sudo'', ''-S''] @ command r else command r)"

definition execute :: "os \<Rightarrow> files \<Rightarrow> request \<Rightarrow> result" where
  "execute e fs r =
     (let busy_on = only_if (set_global_busy r) [SetBusy True];
          busy_off = only_if (set_global_busy r) [SetBusy False];
          asked = only_if (requires_sudo r) [AskPassword]
      in if cancelled e r then
           (let log_msg = ''Sudo command cancelled: No password provided.''
            in \<lparr> trace = busy_on @ asked @ [LogConsole log_msg]
                          @ only_if (log_callback r) [LogLine (log_msg @ [NL])]
                          @ busy_off
                          @ only_if (callback r) [Complete [] (source r)],
                 files_of = fs \<rparr>)
         else
           (case run_or_cache e fs r (elevated r) (password_of e r) of
              None \<Rightarrow> \<lparr> trace = busy_on @ asked, files_of = fs \<rparr>
            | Some (t, fs', out) \<Rightarrow>
                \<lparr> trace = busy_on @ asked @ t
                          @ (case out of
                               None \<Rightarrow> []
                             | Some output_str \<Rightarrow>
                                 only_if (callback r) [Complete output_str (source r)])
                          @ busy_off,
                  files_of = fs' \<rparr>))"

section \<open>App.process_queue\<close>

record queue_item =
  action :: string
  pkg_name :: string
  pkg_source :: string

record job =
  cmd :: "string list"
  sudo :: bool

definition SOURCE_FLATPAK :: string where
  "SOURCE_FLATPAK = ''flatpak''"

text \<open>The four batches of \<open>process_queue\<close>, each a job when it is not empty.\<close>

definition make_jobs :: "queue_item list \<Rightarrow> job list" where
  "make_jobs queue_copy =
     (let installs = [pkg_name p. p \<leftarrow> queue_copy,
                        action p = ''install'' \<and> pkg_source p \<noteq> SOURCE_FLATPAK];
          removes = [pkg_name p. p \<leftarrow> queue_copy,
                       action p = ''remove'' \<and> pkg_source p \<noteq> SOURCE_FLATPAK];
          flatpak_installs = [pkg_name p. p \<leftarrow> queue_copy,
                                action p = ''install'' \<and> pkg_source p = SOURCE_FLATPAK];
          flatpak_removes = [pkg_name p. p \<leftarrow> queue_copy,
                               action p = ''remove'' \<and> pkg_source p = SOURCE_FLATPAK]
      in only_if (installs \<noteq> [])
           [\<lparr> cmd = [''yay'', ''-S'', ''--noconfirm''] @ installs, sudo = True \<rparr>]
         @ only_if (removes \<noteq> [])
           [\<lparr> cmd = [''pacman'', ''-Rns'', ''--noconfirm''] @ removes, sudo = True \<rparr>]
         @ only_if (flatpak_installs \<noteq> [])
           [\<lparr> cmd = [''flatpak'', ''install'', ''flathub'', ''-y'', ''--verbose'']
                      @ flatpak_installs, sudo = False \<rparr>]
         @ only_if (flatpak_removes \<noteq> [])
           [\<lparr> cmd = [''flatpak'', ''uninstall'', ''-y'', ''--verbose''] @ flatpak_removes,
               sudo = False \<rparr>])"

text \<open>The call \<open>self.command_runner.run(job['cmd'], callback=run_next_job, ...)\<close>.\<close>

definition job_request :: "job \<Rightarrow> request" where
  "job_request j =
     \<lparr> command = cmd j, callback = True, log_callback = True, source = None,
       cache_key = None, force_refresh = True, requires_sudo = sudo j,
       set_global_busy = False \<rparr>"

fun is_Complete :: "effect \<Rightarrow> bool" where
  "is_Complete (Complete out src) = True"
| "is_Complete x = False"

fun is_Popen :: "effect \<Rightarrow> bool" where
  "is_Popen (Popen c) = True"
| "is_Popen x = False"

fun is_LogLine :: "effect \<Rightarrow> bool" where
  "is_LogLine (LogLine l) = True"
| "is_LogLine x = False"

fun is_WriteStdin :: "effect \<Rightarrow> bool" where
  "is_WriteStdin (WriteStdin t) = True"
| "is_WriteStdin x = False"

fun is_RefreshInstalled :: "effect \<Rightarrow> bool" where
  "is_RefreshInstalled (RefreshInstalled f) = True"
| "is_RefreshInstalled x = False"

text \<open>Effects that are logs, status lines and alerts only.\<close>

definition plain :: "effect \<Rightarrow> bool" where
  "plain x = (\<not> is_Popen x \<and> \<not> is_Complete x \<and> \<not> is_WriteStdin x
              \<and> \<not> is_RefreshInstalled x)"

text \<open>The last step of the chain, when \<open>jobs\<close> is empty.\<close>

definition all_complete :: "effect list" where
  "all_complete =
     [LogLine ([NL, NL] @ ''All operations complete.'' @ [NL]),
      DialogComplete,
      LogConsole ''Package queue processing finished.'',
      RefreshInstalled True]"

text \<open>
  \<open>run_next_job\<close> is the completion callback of the job it starts: the next job is
  started when the worker of this one posts that callback, and never when it does not.
\<close>

fun run_next_job :: "os \<Rightarrow> files \<Rightarrow> job list \<Rightarrow> result" where
  "run_next_job e fs [] = \<lparr> trace = all_complete, files_of = fs \<rparr>"
| "run_next_job e fs (j # jobs) =
     (let res = execute e fs (job_request j)
      in if list_ex is_Complete (trace res) then
           (let rest = run_next_job e (files_of res) jobs
            in \<lparr> trace = trace res @ trace rest, files_of = files_of rest \<rparr>)
         else res)"

text \<open>\<open>process_queue\<close>: the queue left behind and what the chain did.\<close>

definition process_queue ::
  "os \<Rightarrow> files \<Rightarrow> queue_item list \<Rightarrow> queue_item list \<times> result" where
  "process_queue e fs package_queue =
     (if package_queue = [] then (package_queue, \<lparr> trace = [], files_of = fs \<rparr>)
      else
        (let queue_copy = package_queue;
             jobs = make_jobs queue_copy;
             res = run_next_job e fs jobs
         in ([], \<lparr> trace = [OpenDialog ''Processing Queue'', QueueButton ''Show Queue (0)'',
                             UpdateStatus ''Queue cleared.''] @ trace res,
                   files_of = files_of res \<rparr>)))"

section \<open>Sample environments and requests\<close>

definition home_cache :: string where
  "home_cache = ''/home/user/.cache/apm_cache''"

text \<open>A machine without flatpak: \<open>Popen\<close> raises \<open>FileNotFoundError\<close>.\<close>

definition os_missing :: os where
  "os_missing = \<lparr> CACHE_DIR = home_cache, get_input = (\<lambda>c. Some ''secret''),
                   popen = (\<lambda>c i. FileNotFound), open_w = (\<lambda>p. NoFault) \<rparr>"

text \<open>An executable that may not be run: \<open>Popen\<close> raises \<open>PermissionError\<close>.\<close>

definition os_denied :: os where
  "os_denied = \<lparr> CACHE_DIR = home_cache, get_input = (\<lambda>c. Some ''secret''),
                  popen = (\<lambda>c i. SpawnFailed ''[Errno 13] Permission denied''),
                  open_w = (\<lambda>p. NoFault) \<rparr>"

text \<open>A package database that is locked: pacman prints an error and returns 1.\<close>

definition os_locked :: os where
  "os_locked = \<lparr> CACHE_DIR = home_cache, get_input = (\<lambda>c. Some ''secret''),
                  popen = (\<lambda>c i. Exited
                    [''error: failed to init transaction (unable to lock database)\<newline>''] 1),
                  open_w = (\<lambda>p. NoFault) \<rparr>"

text \<open>A healthy machine: the command prints one package and returns 0.\<close>

definition os_ok :: os where
  "os_ok = \<lparr> CACHE_DIR = home_cache, get_input = (\<lambda>c. Some ''secret''),
              popen = (\<lambda>c i. Exited [''vim 9.1-1\<newline>''] 0), open_w = (\<lambda>p. NoFault) \<rparr>"

text \<open>A user who cancels the password dialog, and one who confirms it empty.\<close>

definition os_cancel :: os where
  "os_cancel = \<lparr> CACHE_DIR = home_cache, get_input = (\<lambda>c. None),
                  popen = (\<lambda>c i. Exited [''vim 9.1-1\<newline>''] 0), open_w = (\<lambda>p. NoFault) \<rparr>"

definition os_empty :: os where
  "os_empty = \<lparr> CACHE_DIR = home_cache, get_input = (\<lambda>c. Some []),
                 popen = (\<lambda>c i. Exited [''vim 9.1-1\<newline>''] 0), open_w = (\<lambda>p. NoFault) \<rparr>"

text \<open>A wrong password: sudo says so among its other output and returns 1.\<close>

definition os_wrong_password :: os where
  "os_wrong_password = \<lparr> CACHE_DIR = home_cache, get_input = (\<lambda>c. Some ''guess''),
       popen = (\<lambda>c i. Exited [''[sudo] password for user: Sorry, try again.\<newline>'',
                               ''sudo: 1 incorrect password attempt\<newline>''] 1),
       open_w = (\<lambda>p. NoFault) \<rparr>"

definition flatpak_job :: job where
  "flatpak_job =
     \<lparr> cmd = [''flatpak'', ''install'', ''flathub'', ''-y'', ''--verbose'', ''org.gimp.GIMP''],
       sudo = False \<rparr>"

definition remove_job :: job where
  "remove_job = \<lparr> cmd = [''pacman'', ''-Rns'', ''--noconfirm'', ''vim''], sudo = True \<rparr>"

text \<open>
  The request of \<open>refresh_installed_list(force)\<close> in system mode:
  \<open>run(["pacman", "-Q"], callback=..., source="pacman",
  cache_key="installed_pacman.cache", force_refresh=force)\<close>.
\<close>

definition installed_request :: "bool \<Rightarrow> request" where
  "installed_request force =
     \<lparr> command = [''pacman'', ''-Q''], callback = True, log_callback = False,
       source = Some ''pacman'', cache_key = Some ''installed_pacman.cache'',
       force_refresh = force, requires_sudo = False, set_global_busy = True \<rparr>"

definition installed_cache :: string where
  "installed_cache = ''/home/user/.cache/apm_cache/installed_pacman.cache''"

text \<open>An elevated request with a cache key, and a cache that holds its file.\<close>

definition sudo_cached_request :: request where
  "sudo_cached_request =
     \<lparr> command = [''pacman'', ''-Q''], callback = True, log_callback = True,
       source = Some ''pacman'', cache_key = Some ''installed_pacman.cache'',
       force_refresh = False, requires_sudo = True, set_global_busy = True \<rparr>"

definition cached_files :: files where
  "cached_files = [installed_cache \<mapsto> Text ''vim 9.1-1\<newline>'']"

text \<open>A cache file that cannot be read, and one with the line ending CR LF.\<close>

definition unreadable_files :: files where
  "unreadable_files = [installed_cache \<mapsto> Unreadable]"

definition crlf_files :: files where
  "crlf_files = [installed_cache \<mapsto> Text (''vim 9.1-1'' @ [CR, NL])]"

text \<open>
  A queue of two packages: installing the first fails under sudo with return code 1,
  installing the second with flatpak succeeds.
\<close>

definition os_chain :: os where
  "os_chain = \<lparr> CACHE_DIR = home_cache, get_input = (\<lambda>c. Some ''secret''),
       popen = (\<lambda>c i.
         if c = [''sudo'', ''-S'', ''yay'', ''-S'', ''--noconfirm'', ''vim-typo'']
         then Exited [''error: target not found: vim-typo\<newline>''] 1
         else if c = [''flatpak'', ''install'', ''flathub'', ''-y'', ''--verbose'',
                      ''org.gimp.GIMP'']
         then Exited [''Installing org.gimp.GIMP\<newline>''] 0
         else FileNotFound),
       open_w = (\<lambda>p. NoFault) \<rparr>"

definition sample_queue :: "queue_item list" where
  "sample_queue =
     [\<lparr> action = ''install'', pkg_name = ''vim-typo'', pkg_source = ''pacman'' \<rparr>,
      \<lparr> action = ''install'', pkg_name = ''org.gimp.GIMP'', pkg_source = ''flatpak'' \<rparr>]"

definition flatpak_queue :: "queue_item list" where
  "flatpak_queue =
     [\<lparr> action = ''install'', pkg_name = ''org.gimp.GIMP'', pkg_source = ''flatpak'' \<rparr>,
      \<lparr> action = ''remove'', pkg_name = ''org.videolan.VLC'', pkg_source = ''flatpak'' \<rparr>]"

section \<open>Facts about the model\<close>

lemmas exec_defs = execute_def cancelled_def password_of_def elevated_def run_or_cache_def
  cache_hit_def cache_path_def try_run_def started_def cache_put_def spawn_def
  stdin_text_def read_lines_def check_errors_def only_if_def on_not_found_def
  on_exception_def truthy_def truthy_opt_def strip_def isspace_def path_join_def
  NL_def CR_def Let_def

lemmas sample_defs = home_cache_def os_missing_def os_denied_def os_locked_def os_ok_def
  os_cancel_def os_empty_def os_wrong_password_def flatpak_job_def remove_job_def
  installed_request_def installed_cache_def job_request_def
  sudo_cached_request_def cached_files_def unreadable_files_def crlf_files_def os_chain_def
  sample_queue_def flatpak_queue_def

lemma startswith_iff: "startswith s p \<longleftrightarrow> (\<exists>t. s = p @ t)"
  by (induction s p rule: startswith.induct) auto

text \<open>\<open>str_in\<close> is the substring test.\<close>

lemma str_in_iff: "str_in needle hay \<longleftrightarrow> (\<exists>a b. hay = a @ needle @ b)"
proof (induction hay)
  case Nil
  then show ?case by auto
next
  case (Cons c cs)
  show ?case
  proof
    assume "str_in needle (c # cs)"
    then consider "startswith (c # cs) needle" | "str_in needle cs" by auto
    then show "\<exists>a b. c # cs = a @ needle @ b"
    proof cases
      case 1
      then obtain t where "c # cs = needle @ t" by (auto simp: startswith_iff)
      then have "c # cs = [] @ needle @ t" by simp
      then show ?thesis by blast
    next
      case 2
      then obtain a b where "cs = a @ needle @ b" using Cons.IH by auto
      then have "c # cs = (c # a) @ needle @ b" by simp
      then show ?thesis by blast
    qed
  next
    assume "\<exists>a b. c # cs = a @ needle @ b"
    then obtain a b where ab: "c # cs = a @ needle @ b" by blast
    show "str_in needle (c # cs)"
    proof (cases a)
      case Nil
      then have "startswith (c # cs) needle" using ab by (auto simp: startswith_iff)
      then show ?thesis by simp
    next
      case (Cons x a')
      then have "cs = a' @ needle @ b" using ab by simp
      then have "str_in needle cs" using Cons.IH by blast
      then show ?thesis by simp
    qed
  qed
qed

text \<open>The three ways through \<open>_execute\<close>: cancelled, served from the cache, run.\<close>

lemma execute_cancelled:
  "cancelled e r \<Longrightarrow>
   execute e fs r =
     \<lparr> trace = only_if (set_global_busy r) [SetBusy True]
               @ only_if (requires_sudo r) [AskPassword]
               @ [LogConsole ''Sudo command cancelled: No password provided.'']
               @ only_if (log_callback r)
                   [LogLine (''Sudo command cancelled: No password provided.'' @ [NL])]
               @ only_if (set_global_busy r) [SetBusy False]
               @ only_if (callback r) [Complete [] (source r)],
       files_of = fs \<rparr>"
  by (simp add: execute_def Let_def)

lemma execute_hit:
  "\<not> cancelled e r \<Longrightarrow> cache_hit e fs r = Some (Text T) \<Longrightarrow>
   execute e fs r =
     \<lparr> trace = only_if (set_global_busy r) [SetBusy True]
               @ only_if (requires_sudo r) [AskPassword]
               @ only_if (log_callback r) [LogLine (universal_newlines T)]
               @ [UpdateStatus ''Ready (from cache)'']
               @ only_if (callback r) [Complete (universal_newlines T) (source r)]
               @ only_if (set_global_busy r) [SetBusy False],
       files_of = fs \<rparr>"
  by (simp add: execute_def run_or_cache_def Let_def)

lemma execute_unreadable:
  "\<not> cancelled e r \<Longrightarrow> cache_hit e fs r = Some Unreadable \<Longrightarrow>
   execute e fs r =
     \<lparr> trace = only_if (set_global_busy r) [SetBusy True]
               @ only_if (requires_sudo r) [AskPassword],
       files_of = fs \<rparr>"
  by (simp add: execute_def run_or_cache_def Let_def)

text \<open>Text that has passed the text layer has no carriage return and passes it unchanged.\<close>

lemma universal_newlines_no_CR: "CR \<notin> set (universal_newlines s)"
  by (induction s rule: universal_newlines.induct) (auto simp: CR_def NL_def)

lemma universal_newlines_id: "CR \<notin> set s \<Longrightarrow> universal_newlines s = s"
  by (induction s rule: universal_newlines.induct) auto

lemma read_lines_no_CR: "CR \<notin> set (concat (read_lines ls))"
proof -
  have "\<forall>l \<in> set (read_lines ls). CR \<notin> set l"
    unfolding read_lines_def using universal_newlines_no_CR
    by (auto dest!: set_takeWhileD)
  then show ?thesis by auto
qed

lemma read_lines_reread: "universal_newlines (concat (read_lines ls)) = concat (read_lines ls)"
  by (rule universal_newlines_id [OF read_lines_no_CR])

lemma execute_miss:
  "\<not> cancelled e r \<Longrightarrow> cache_hit e fs r = None \<Longrightarrow>
   try_run e fs r (elevated r) (password_of e r) = (t, fs', out) \<Longrightarrow>
   execute e fs r =
     \<lparr> trace = only_if (set_global_busy r) [SetBusy True]
               @ only_if (requires_sudo r) [AskPassword]
               @ [UpdateStatus (''Running: '' @ join_sp (elevated r)),
                  LogConsole (''Running: '' @ join_sp (elevated r))]
               @ t @ [UpdateStatus ''Ready'']
               @ (case out of
                    None \<Rightarrow> []
                  | Some output_str \<Rightarrow> only_if (callback r) [Complete output_str (source r)])
               @ only_if (set_global_busy r) [SetBusy False],
       files_of = fs' \<rparr>"
  by (simp add: execute_def run_or_cache_def Let_def)

text \<open>
  A process that ended: \<open>output_str\<close> is everything it printed, and the alerts and the
  return code in the log are the ones of the check after \<open>process.wait()\<close>.
\<close>

lemma try_run_exited:
  assumes "spawn e c (stdin_text pw) = Exited ls rc"
  shows "\<exists>t fs'. try_run e fs r c pw = (t, fs', Some (concat (read_lines ls)))
           \<and> set (check_errors rc (concat (read_lines ls))) \<subseteq> set t
           \<and> (\<forall>a b. ShowError a b \<in> set t \<longrightarrow>
                 ShowError a b \<in> set (check_errors rc (concat (read_lines ls)))
                 \<or> a = ''Command Not Found'')
           \<and> (\<forall>m. LogConsole (''Process exited with code '' @ m) \<in> set t \<longrightarrow>
                 LogConsole (''Process exited with code '' @ m)
                   \<in> set (check_errors rc (concat (read_lines ls))))"
proof -
  obtain w fs' where w: "cache_put e fs r c (concat (read_lines ls)) = (w, fs')"
    by (cases "cache_put e fs r c (concat (read_lines ls))")
  have "w = [] \<or> w = on_not_found c \<or> (\<exists>err. w = on_exception r err)"
    using w by (auto simp: cache_put_def split: option.splits if_splits io_fault.splits)
  then have ws: "(\<forall>a b. ShowError a b \<in> set w \<longrightarrow> a = ''Command Not Found'')
      \<and> (\<forall>m. LogConsole (''Process exited with code '' @ m) \<notin> set w)"
    by (auto simp: on_not_found_def on_exception_def only_if_def Let_def)
  have "try_run e fs r c pw =
      (started c pw @ only_if (log_callback r) (map LogLine (read_lines ls))
         @ check_errors rc (concat (read_lines ls)) @ w, fs', Some (concat (read_lines ls)))"
    using assms w by (simp add: try_run_def Let_def)
  moreover have "\<forall>a b. ShowError a b \<notin> set (started c pw)"
    "\<forall>m. LogConsole m \<notin> set (started c pw)"
    by (auto simp: started_def split: option.splits)
  ultimately show ?thesis
    using ws by (auto simp: only_if_def)
qed

text \<open>Which effects the parts of \<open>try_run\<close> have.\<close>

lemma cache_put_effects: "fst (cache_put e fs r c out) = fst (cache_put e fs' r c out)"
  by (simp add: cache_put_def split: option.splits io_fault.splits)

lemma on_exception_plain: "list_all plain (on_exception r err)"
  by (simp add: on_exception_def only_if_def Let_def plain_def)

lemma on_not_found_plain: "list_all plain (on_not_found c)"
  by (simp add: on_not_found_def Let_def plain_def)

lemma cache_put_plain: "list_all plain (fst (cache_put e fs r c out))"
  by (simp add: cache_put_def on_exception_plain on_not_found_plain
           split: option.splits io_fault.splits)

lemma check_errors_plain: "list_all plain (check_errors rc out)"
  by (simp add: check_errors_def plain_def)

lemma log_lines_plain: "list_all plain (only_if b (map LogLine ls))"
  by (auto simp: only_if_def plain_def list_all_iff)

lemma plain_filters:
  assumes "list_all plain xs"
  shows "filter is_Popen xs = []" and "filter is_Complete xs = []"
    and "filter is_WriteStdin xs = []" and "filter is_RefreshInstalled xs = []"
    and "filter (\<lambda>x. \<not> is_WriteStdin x) xs = xs"
  using assms by (induction xs) (auto simp: plain_def)

lemma started_filters:
  "filter is_Popen (started c pw) = [Popen c]"
  "filter is_Complete (started c pw) = []"
  "filter is_RefreshInstalled (started c pw) = []"
  "filter (\<lambda>x. \<not> is_WriteStdin x) (started c pw) = [Popen c]"
  by (simp_all add: started_def split: option.splits)

text \<open>The shape of \<open>try_run\<close>: the start, then effects that are logs and alerts only.\<close>

lemma try_run_shape:
  "\<exists>s rest. fst (try_run e fs r c pw) = s @ rest
      \<and> (s = started c pw \<or> s = [Popen c]) \<and> list_all plain rest"
proof (cases "spawn e c (stdin_text pw)")
  case FileNotFound
  then have "fst (try_run e fs r c pw) = [Popen c] @ on_not_found c"
    by (simp add: try_run_def)
  then show ?thesis using on_not_found_plain by blast
next
  case (SpawnFailed err)
  then have "fst (try_run e fs r c pw) = [Popen c] @ on_exception r err"
    by (simp add: try_run_def)
  then show ?thesis using on_exception_plain by blast
next
  case (Failed ls err)
  then have "fst (try_run e fs r c pw) =
      started c pw @ (only_if (log_callback r) (map LogLine (read_lines ls)) @ on_exception r err)"
    by (simp add: try_run_def)
  moreover have "list_all plain (only_if (log_callback r) (map LogLine (read_lines ls))
                         @ on_exception r err)"
    by (simp add: log_lines_plain on_exception_plain)
  ultimately show ?thesis by blast
next
  case (Exited ls rc)
  let ?out = "concat (read_lines ls)"
  have "fst (try_run e fs r c pw) =
      started c pw @ (only_if (log_callback r) (map LogLine (read_lines ls))
        @ check_errors rc ?out @ fst (cache_put e fs r c ?out))"
    using Exited by (simp add: try_run_def Let_def split: prod.splits)
  moreover have "list_all plain (only_if (log_callback r) (map LogLine (read_lines ls))
        @ check_errors rc ?out @ fst (cache_put e fs r c ?out))"
    by (simp add: log_lines_plain check_errors_plain cache_put_plain)
  ultimately show ?thesis by blast
qed

lemma try_run_filters:
  "filter is_Popen (fst (try_run e fs r c pw)) = [Popen c]"
  "filter is_Complete (fst (try_run e fs r c pw)) = []"
  "filter is_RefreshInstalled (fst (try_run e fs r c pw)) = []"
proof -
  obtain s rest where sh: "fst (try_run e fs r c pw) = s @ rest"
    "s = started c pw \<or> s = [Popen c]" "list_all plain rest"
    using try_run_shape by blast
  show "filter is_Popen (fst (try_run e fs r c pw)) = [Popen c]"
    using sh(2) by (auto simp: sh(1) plain_filters [OF sh(3)] started_filters)
  show "filter is_Complete (fst (try_run e fs r c pw)) = []"
    using sh(2) by (auto simp: sh(1) plain_filters [OF sh(3)] started_filters)
  show "filter is_RefreshInstalled (fst (try_run e fs r c pw)) = []"
    using sh(2) by (auto simp: sh(1) plain_filters [OF sh(3)] started_filters)
qed

lemma try_run_trace_files:
  "fst (try_run e fs r c pw) = fst (try_run e fs' r c pw)
   \<and> snd (snd (try_run e fs r c pw)) = snd (snd (try_run e fs' r c pw))"
proof (cases "spawn e c (stdin_text pw)")
  case (Exited ls rc)
  obtain w1 f1 where c1: "cache_put e fs r c (concat (read_lines ls)) = (w1, f1)"
    by (cases "cache_put e fs r c (concat (read_lines ls))")
  obtain w2 f2 where c2: "cache_put e fs' r c (concat (read_lines ls)) = (w2, f2)"
    by (cases "cache_put e fs' r c (concat (read_lines ls))")
  have "w1 = w2"
    using cache_put_effects [of e fs r c "concat (read_lines ls)" fs'] c1 c2 by simp
  then show ?thesis
    using Exited c1 c2 by (simp add: try_run_def Let_def)
qed (simp_all add: try_run_def)

lemma trace_filter_miss:
  assumes "\<not> cancelled e r" and "cache_hit e fs r = None"
  shows "filter is_Popen (trace (execute e fs r)) = [Popen (elevated r)]"
proof -
  obtain t fs' out where tr: "try_run e fs r (elevated r) (password_of e r) = (t, fs', out)"
    by (cases "try_run e fs r (elevated r) (password_of e r)")
  have "filter is_Popen t = [Popen (elevated r)]"
    using try_run_filters(1) [of e fs r "elevated r" "password_of e r"] tr by simp
  then show ?thesis
    using execute_miss [OF assms tr] by (simp add: only_if_def split: option.splits)
qed

lemma cache_path_cong: "CACHE_DIR e2 = CACHE_DIR e \<Longrightarrow> cache_path e2 r = cache_path e r"
  by (simp add: cache_path_def split: option.splits)

lemma try_run_secret:
  assumes "spawn e2 c (stdin_text pw2) = spawn e c (stdin_text pw1)"
    and "CACHE_DIR e2 = CACHE_DIR e" and "open_w e2 = open_w e"
  shows "filter (\<lambda>x. \<not> is_WriteStdin x) (fst (try_run e2 fs r c pw2))
           = filter (\<lambda>x. \<not> is_WriteStdin x) (fst (try_run e fs r c pw1))
       \<and> snd (try_run e2 fs r c pw2) = snd (try_run e fs r c pw1)"
proof -
  have cp: "\<And>out. cache_put e2 fs r c out = cache_put e fs r c out"
    using assms(3) cache_path_cong [OF assms(2)]
    by (simp add: cache_put_def split: option.splits)
  show ?thesis
  proof (cases "spawn e c (stdin_text pw1)")
    case FileNotFound
    then show ?thesis using assms(1) by (simp add: try_run_def)
  next
    case (SpawnFailed err)
    then show ?thesis
      using assms(1) on_exception_plain [of r err]
      by (simp add: try_run_def plain_filters)
  next
    case (Failed ls err)
    have "list_all plain (only_if (log_callback r) (map LogLine (read_lines ls))
            @ on_exception r err)"
      by (simp add: log_lines_plain on_exception_plain)
    then show ?thesis
      using Failed assms(1) by (simp add: try_run_def started_filters plain_filters)
  next
    case (Exited ls rc)
    obtain w f where w: "cache_put e fs r c (concat (read_lines ls)) = (w, f)"
      by (cases "cache_put e fs r c (concat (read_lines ls))")
    have "list_all plain w"
      using cache_put_plain [of e fs r c "concat (read_lines ls)"] w by simp
    then have "list_all plain (only_if (log_callback r) (map LogLine (read_lines ls))
            @ check_errors rc (concat (read_lines ls)) @ w)"
      by (simp add: log_lines_plain check_errors_plain)
    then show ?thesis
      using Exited assms(1) cp w
      by (simp add: try_run_def Let_def started_filters plain_filters)
  qed
qed

lemma try_run_stdin:
  "filter is_WriteStdin (fst (try_run e fs r c pw)) =
     (case spawn e c (stdin_text pw) of
        FileNotFound \<Rightarrow> []
      | SpawnFailed err \<Rightarrow> []
      | Failed ls err \<Rightarrow> (case stdin_text pw of None \<Rightarrow> [] | Some t \<Rightarrow> [WriteStdin t])
      | Exited ls rc \<Rightarrow> (case stdin_text pw of None \<Rightarrow> [] | Some t \<Rightarrow> [WriteStdin t]))"
proof -
  have st: "filter is_WriteStdin (started c pw)
              = (case stdin_text pw of None \<Rightarrow> [] | Some t \<Rightarrow> [WriteStdin t])"
    by (simp add: started_def split: option.splits)
  show ?thesis
  proof (cases "spawn e c (stdin_text pw)")
    case FileNotFound
    then show ?thesis
      using on_not_found_plain [of c] by (simp add: try_run_def plain_filters)
  next
    case (SpawnFailed err)
    then show ?thesis
      using on_exception_plain [of r err] by (simp add: try_run_def plain_filters)
  next
    case (Failed ls err)
    have "list_all plain (only_if (log_callback r) (map LogLine (read_lines ls))
            @ on_exception r err)"
      by (simp add: log_lines_plain on_exception_plain)
    then show ?thesis
      using Failed st by (simp add: try_run_def plain_filters)
  next
    case (Exited ls rc)
    obtain w f where w: "cache_put e fs r c (concat (read_lines ls)) = (w, f)"
      by (cases "cache_put e fs r c (concat (read_lines ls))")
    have "list_all plain w"
      using cache_put_plain [of e fs r c "concat (read_lines ls)"] w by simp
    then have "list_all plain (only_if (log_callback r) (map LogLine (read_lines ls))
            @ check_errors rc (concat (read_lines ls)) @ w)"
      by (simp add: log_lines_plain check_errors_plain)
    then show ?thesis
      using Exited st w by (simp add: try_run_def Let_def plain_filters)
  qed
qed

text \<open>A transcript that is empty after trimming is not written to the cache.\<close>

lemma blank_transcript_not_cached:
  "\<not> truthy (strip output_str) \<Longrightarrow> cache_put e fs r c output_str = ([], fs)"
  by (simp add: cache_put_def split: option.splits)

text \<open>The requests of the queue chain.\<close>

lemma job_request_simps:
  "callback (job_request j)" "log_callback (job_request j)" "source (job_request j) = None"
  "cache_key (job_request j) = None" "force_refresh (job_request j)"
  "requires_sudo (job_request j) = sudo j" "\<not> set_global_busy (job_request j)"
  "command (job_request j) = cmd j"
  by (simp_all add: job_request_def)

lemma job_cache_miss: "cache_hit e fs (job_request j) = None"
  by (simp add: cache_hit_def cache_path_def job_request_simps)

lemma make_jobs_nonempty: "j \<in> set (make_jobs q) \<Longrightarrow> cmd j \<noteq> []"
  by (auto simp: make_jobs_def Let_def only_if_def split: if_splits)

text \<open>
  A job ends when it is cancelled at the password dialog or its process ends with a
  return code. Such a job posts its completion callback, once and last.
\<close>

lemma job_completes:
  assumes "cancelled e (job_request j)
           \<or> (\<exists>ls rc. popen e (elevated (job_request j))
                          (stdin_text (password_of e (job_request j))) = Exited ls rc)"
    and "cmd j \<noteq> []"
  shows "\<exists>pre out. trace (execute e fs (job_request j)) = pre @ [Complete out None]
           \<and> filter is_Complete pre = [] \<and> filter is_RefreshInstalled pre = []
           \<and> filter is_Popen pre
               = (if cancelled e (job_request j) then [] else [Popen (elevated (job_request j))])"
    and "files_of (execute e fs (job_request j)) = fs"
proof -
  let ?r = "job_request j"
  have both: "(\<exists>pre out. trace (execute e fs ?r) = pre @ [Complete out None]
           \<and> filter is_Complete pre = [] \<and> filter is_RefreshInstalled pre = []
           \<and> filter is_Popen pre = (if cancelled e ?r then [] else [Popen (elevated ?r)]))
         \<and> files_of (execute e fs ?r) = fs"
  proof (cases "cancelled e ?r")
    case True
    show ?thesis
      using True by (simp add: execute_cancelled [OF True] job_request_simps only_if_def)
  next
    case False
    have ne: "elevated ?r \<noteq> []"
      using assms(2) by (simp add: elevated_def job_request_simps)
    obtain ls rc where "popen e (elevated ?r) (stdin_text (password_of e ?r)) = Exited ls rc"
      using assms(1) False by blast
    then have sp: "spawn e (elevated ?r) (stdin_text (password_of e ?r)) = Exited ls rc"
      using ne by (simp add: spawn_def)
    have put: "cache_put e fs ?r (elevated ?r) (concat (read_lines ls)) = ([], fs)"
      by (simp add: cache_put_def cache_path_def job_request_simps)
    obtain t where tr: "try_run e fs ?r (elevated ?r) (password_of e ?r)
                          = (t, fs, Some (concat (read_lines ls)))"
      using sp put by (simp add: try_run_def Let_def)
    have ft: "filter is_Complete t = []" "filter is_RefreshInstalled t = []"
      "filter is_Popen t = [Popen (elevated ?r)]"
      using try_run_filters [of e fs ?r "elevated ?r" "password_of e ?r"] tr by simp_all
    show ?thesis
      using False ft execute_miss [OF False job_cache_miss tr]
      by (simp add: job_request_simps only_if_def)
  qed
  show "\<exists>pre out. trace (execute e fs (job_request j)) = pre @ [Complete out None]
           \<and> filter is_Complete pre = [] \<and> filter is_RefreshInstalled pre = []
           \<and> filter is_Popen pre
               = (if cancelled e (job_request j) then [] else [Popen (elevated (job_request j))])"
    using both by blast
  show "files_of (execute e fs (job_request j)) = fs"
    using both by blast
qed

lemma run_next_job_all:
  assumes "\<forall>j \<in> set jobs. cancelled e (job_request j)
           \<or> (\<exists>ls rc. popen e (elevated (job_request j))
                          (stdin_text (password_of e (job_request j))) = Exited ls rc)"
    and "\<forall>j \<in> set jobs. cmd j \<noteq> []"
  shows "trace (run_next_job e fs jobs)
           = concat (map (\<lambda>j. trace (execute e fs (job_request j))) jobs) @ all_complete
       \<and> files_of (run_next_job e fs jobs) = fs"
  using assms
proof (induction jobs)
  case Nil
  then show ?case by simp
next
  case (Cons j jobs)
  have ne: "cmd j \<noteq> []" using Cons.prems(2) by simp
  have ends: "cancelled e (job_request j)
           \<or> (\<exists>ls rc. popen e (elevated (job_request j))
                          (stdin_text (password_of e (job_request j))) = Exited ls rc)"
    using Cons.prems(1) by simp
  obtain pre out where p: "trace (execute e fs (job_request j)) = pre @ [Complete out None]"
    using job_completes(1) [OF ends ne] by blast
  have fired: "list_ex is_Complete (trace (execute e fs (job_request j)))"
    by (simp add: p)
  have files: "files_of (execute e fs (job_request j)) = fs"
    using job_completes(2) [OF ends ne] .
  have IH: "trace (run_next_job e fs jobs)
           = concat (map (\<lambda>j. trace (execute e fs (job_request j))) jobs) @ all_complete
       \<and> files_of (run_next_job e fs jobs) = fs"
    using Cons by simp
  show ?case
    using fired files IH by (simp add: Let_def)
qed

lemma all_complete_filters:
  "filter is_Popen all_complete = []" "filter is_Complete all_complete = []"
  "filter is_RefreshInstalled all_complete = [RefreshInstalled True]"
  by (simp_all add: all_complete_def)

lemma chain_filters:
  assumes "\<forall>j \<in> set jobs. cancelled e (job_request j)
           \<or> (\<exists>ls rc. popen e (elevated (job_request j))
                          (stdin_text (password_of e (job_request j))) = Exited ls rc)"
    and "\<forall>j \<in> set jobs. cmd j \<noteq> []"
  shows "filter is_Popen (concat (map (\<lambda>j. trace (execute e fs (job_request j))) jobs))
           = map (\<lambda>j. Popen (elevated (job_request j)))
               (filter (\<lambda>j. \<not> cancelled e (job_request j)) jobs)
       \<and> filter is_RefreshInstalled
           (concat (map (\<lambda>j. trace (execute e fs (job_request j))) jobs)) = []
       \<and> length (filter is_Complete
           (concat (map (\<lambda>j. trace (execute e fs (job_request j))) jobs))) = length jobs"
  using assms
proof (induction jobs)
  case Nil
  show ?case by simp
next
  case (Cons j jobs)
  have ne: "cmd j \<noteq> []" using Cons.prems(2) by simp
  have ends: "cancelled e (job_request j)
           \<or> (\<exists>ls rc. popen e (elevated (job_request j))
                          (stdin_text (password_of e (job_request j))) = Exited ls rc)"
    using Cons.prems(1) by simp
  obtain pre out where p: "trace (execute e fs (job_request j)) = pre @ [Complete out None]"
    "filter is_Complete pre = []" "filter is_RefreshInstalled pre = []"
    "filter is_Popen pre
       = (if cancelled e (job_request j) then [] else [Popen (elevated (job_request j))])"
    using job_completes(1) [OF ends ne] by blast
  have IH: "filter is_Popen (concat (map (\<lambda>j. trace (execute e fs (job_request j))) jobs))
           = map (\<lambda>j. Popen (elevated (job_request j)))
               (filter (\<lambda>j. \<not> cancelled e (job_request j)) jobs)
       \<and> filter is_RefreshInstalled
           (concat (map (\<lambda>j. trace (execute e fs (job_request j))) jobs)) = []
       \<and> length (filter is_Complete
           (concat (map (\<lambda>j. trace (execute e fs (job_request j))) jobs))) = length jobs"
    using Cons by simp
  show ?case using IH p by simp
qed

text \<open>
  The chain on a machine without flatpak: the worker of the first job never posts
  \<open>run_next_job\<close>, so the second job is not started and the dialog is never completed.
\<close>

lemma chain_stalls_when_executable_missing:
  "trace (snd (process_queue os_missing Map.empty flatpak_queue)) =
     [OpenDialog ''Processing Queue'', QueueButton ''Show Queue (0)'',
      UpdateStatus ''Queue cleared.'',
      UpdateStatus ''Running: flatpak install flathub -y --verbose org.gimp.GIMP'',
      LogConsole ''Running: flatpak install flathub -y --verbose org.gimp.GIMP'',
      Popen [''flatpak'', ''install'', ''flathub'', ''-y'', ''--verbose'', ''org.gimp.GIMP''],
      LogConsole ''Error: Command not found - flatpak.'',
      ShowError ''Command Not Found'' ''Error: Command not found - flatpak.'',
      UpdateStatus ''Ready'']"
  by (simp add: process_queue_def make_jobs_def flatpak_queue_def SOURCE_FLATPAK_def
        exec_defs sample_defs)

section \<open>The claims\<close>

text \<open>
  C1. The claim: for every command request the completion callback is invoked with the
  transcript and the source tag whatever the outcome, also when the executable is not
  found and when the spawn raises an unexpected error. The code does not do this:
  \<open>output_str\<close> stays \<open>None\<close> when \<open>Popen\<close> raises, and the callback is posted only
  \<open>if callback and output_str is not None\<close>. For a queue job on a machine without flatpak,
  and for one whose executable may not be run, a callback is given and the worker ends
  without posting it.
\<close>

theorem callback_not_invoked_on_spawn_failure:
  "callback (job_request flatpak_job)
   \<and> trace (execute os_missing Map.empty (job_request flatpak_job)) =
       [UpdateStatus ''Running: flatpak install flathub -y --verbose org.gimp.GIMP'',
        LogConsole ''Running: flatpak install flathub -y --verbose org.gimp.GIMP'',
        Popen [''flatpak'', ''install'', ''flathub'', ''-y'', ''--verbose'', ''org.gimp.GIMP''],
        LogConsole ''Error: Command not found - flatpak.'',
        ShowError ''Command Not Found'' ''Error: Command not found - flatpak.'',
        UpdateStatus ''Ready'']
   \<and> filter is_Complete (trace (execute os_missing Map.empty (job_request flatpak_job))) = []
   \<and> filter is_Complete (trace (execute os_denied Map.empty (job_request flatpak_job))) = []"
  by (simp add: exec_defs sample_defs)

text \<open>
  C2. The claim: the cache keeps a transcript only when it is not empty after trimming,
  and a run that failed (non-zero exit) is never cached. The code writes the cache file
  under the comment \<open>Cache the result if successful\<close> but tests only
  \<open>cache_path and output_str.strip()\<close>, never the return code: with the package
  database locked, the error text of \<open>pacman -Q\<close> (return code 1) is written to
  \<open>installed_pacman.cache\<close>, and the next request without \<open>force\<close> hands that error
  text to the callback as the list of installed packages, without starting pacman.
\<close>

theorem failed_run_is_cached:
  "files_of (execute os_locked Map.empty (installed_request True)) installed_cache
     = Some (Text ''error: failed to init transaction (unable to lock database)\<newline>'')
   \<and> LogConsole ''Process exited with code 1''
       \<in> set (trace (execute os_locked Map.empty (installed_request True)))
   \<and> trace (execute os_ok (files_of (execute os_locked Map.empty (installed_request True)))
              (installed_request False)) =
       [SetBusy True, UpdateStatus ''Ready (from cache)'',
        Complete ''error: failed to init transaction (unable to lock database)\<newline>''
          (Some ''pacman''),
        SetBusy False]"
  by (simp add: exec_defs sample_defs str_int_def digit_def)

text \<open>
  C3. The queue chain: the jobs are the batches of system installs, system removes,
  flatpak installs and flatpak removes, in this order. When every job of the queue ends
  (it is cancelled at the password dialog, or its process ends with some return code,
  zero or not), the chain is the whole run of each job, one after the other, each ending
  with its completion callback; every job that is not cancelled is started, in order; and
  after the last job the line \<open>All operations complete.\<close> is logged and then, after the
  dialog is completed, the installed list is refreshed, once in the whole chain.
\<close>

theorem queue_chain_runs_all_jobs:
  assumes "package_queue \<noteq> []"
    and "\<forall>j \<in> set (make_jobs package_queue). cancelled e (job_request j)
           \<or> (\<exists>ls rc. popen e (elevated (job_request j))
                          (stdin_text (password_of e (job_request j))) = Exited ls rc)"
  shows "fst (process_queue e fs package_queue) = []
       \<and> trace (snd (process_queue e fs package_queue))
           = [OpenDialog ''Processing Queue'', QueueButton ''Show Queue (0)'',
              UpdateStatus ''Queue cleared.'']
             @ concat (map (\<lambda>j. trace (execute e fs (job_request j))) (make_jobs package_queue))
             @ [LogLine ''\<newline>\<newline>All operations complete.\<newline>'', DialogComplete,
                LogConsole ''Package queue processing finished.'', RefreshInstalled True]
       \<and> (\<forall>j \<in> set (make_jobs package_queue).
             \<exists>pre out. trace (execute e fs (job_request j)) = pre @ [Complete out None]
                        \<and> filter is_Complete pre = [])
       \<and> filter is_Popen (trace (snd (process_queue e fs package_queue)))
           = map (\<lambda>j. Popen (elevated (job_request j)))
               (filter (\<lambda>j. \<not> cancelled e (job_request j)) (make_jobs package_queue))
       \<and> length (filter is_Complete (trace (snd (process_queue e fs package_queue))))
           = length (make_jobs package_queue)
       \<and> filter is_RefreshInstalled (trace (snd (process_queue e fs package_queue)))
           = [RefreshInstalled True]"
proof -
  let ?jobs = "make_jobs package_queue"
  have ne: "\<forall>j \<in> set ?jobs. cmd j \<noteq> []"
    using make_jobs_nonempty by blast
  have last: "all_complete =
      [LogLine ''\<newline>\<newline>All operations complete.\<newline>'', DialogComplete,
       LogConsole ''Package queue processing finished.'', RefreshInstalled True]"
    by (simp add: all_complete_def NL_def)
  have tr: "trace (snd (process_queue e fs package_queue))
           = [OpenDialog ''Processing Queue'', QueueButton ''Show Queue (0)'',
              UpdateStatus ''Queue cleared.'']
             @ concat (map (\<lambda>j. trace (execute e fs (job_request j))) ?jobs) @ all_complete"
    using assms(1) run_next_job_all [OF assms(2) ne, of fs]
    by (simp add: process_queue_def Let_def)
  have each: "\<forall>j \<in> set ?jobs.
             \<exists>pre out. trace (execute e fs (job_request j)) = pre @ [Complete out None]
                        \<and> filter is_Complete pre = []"
  proof
    fix j assume j: "j \<in> set ?jobs"
    then have "cmd j \<noteq> []" using ne by blast
    moreover have "cancelled e (job_request j)
           \<or> (\<exists>ls rc. popen e (elevated (job_request j))
                          (stdin_text (password_of e (job_request j))) = Exited ls rc)"
      using assms(2) j by blast
    ultimately show "\<exists>pre out. trace (execute e fs (job_request j)) = pre @ [Complete out None]
                        \<and> filter is_Complete pre = []"
      using job_completes(1) [of e j fs] by blast
  qed
  have queue: "fst (process_queue e fs package_queue) = []"
    using assms(1) by (simp add: process_queue_def Let_def)
  have filters: "filter is_Popen (trace (snd (process_queue e fs package_queue)))
           = map (\<lambda>j. Popen (elevated (job_request j)))
               (filter (\<lambda>j. \<not> cancelled e (job_request j)) ?jobs)
       \<and> length (filter is_Complete (trace (snd (process_queue e fs package_queue))))
           = length ?jobs
       \<and> filter is_RefreshInstalled (trace (snd (process_queue e fs package_queue)))
           = [RefreshInstalled True]"
    using chain_filters [OF assms(2) ne, of fs] by (simp add: tr all_complete_filters)
  show ?thesis
    using queue tr [unfolded last] each filters by blast
qed

theorem queue_chain_runs_all_jobs_witness:
  "sample_queue \<noteq> []
   \<and> make_jobs sample_queue =
       [\<lparr> cmd = [''yay'', ''-S'', ''--noconfirm'', ''vim-typo''], sudo = True \<rparr>,
        \<lparr> cmd = [''flatpak'', ''install'', ''flathub'', ''-y'', ''--verbose'', ''org.gimp.GIMP''],
          sudo = False \<rparr>]
   \<and> popen os_chain [''sudo'', ''-S'', ''yay'', ''-S'', ''--noconfirm'', ''vim-typo'']
         (Some ''secret\<newline>'')
       = Exited [''error: target not found: vim-typo\<newline>''] 1
   \<and> popen os_chain
         [''flatpak'', ''install'', ''flathub'', ''-y'', ''--verbose'', ''org.gimp.GIMP''] None
       = Exited [''Installing org.gimp.GIMP\<newline>''] 0
   \<and> popen os_chain [''pacman'', ''-Q''] None = FileNotFound
   \<and> trace (snd (process_queue os_chain Map.empty sample_queue)) =
       [OpenDialog ''Processing Queue'', QueueButton ''Show Queue (0)'',
        UpdateStatus ''Queue cleared.'', AskPassword,
        UpdateStatus ''Running: sudo -S yay -S --noconfirm vim-typo'',
        LogConsole ''Running: sudo -S yay -S --noconfirm vim-typo'',
        Popen [''sudo'', ''-S'', ''yay'', ''-S'', ''--noconfirm'', ''vim-typo''],
        WriteStdin ''secret\<newline>'', LogLine ''error: target not found: vim-typo\<newline>'',
        LogConsole ''Process exited with code 1'', UpdateStatus ''Ready'',
        Complete ''error: target not found: vim-typo\<newline>'' None,
        UpdateStatus ''Running: flatpak install flathub -y --verbose org.gimp.GIMP'',
        LogConsole ''Running: flatpak install flathub -y --verbose org.gimp.GIMP'',
        Popen [''flatpak'', ''install'', ''flathub'', ''-y'', ''--verbose'', ''org.gimp.GIMP''],
        LogLine ''Installing org.gimp.GIMP\<newline>'', UpdateStatus ''Ready'',
        Complete ''Installing org.gimp.GIMP\<newline>'' None,
        LogLine ''\<newline>\<newline>All operations complete.\<newline>'', DialogComplete,
        LogConsole ''Package queue processing finished.'', RefreshInstalled True]
   \<and> filter is_RefreshInstalled (trace (snd (process_queue os_chain Map.empty sample_queue)))
       = [RefreshInstalled True]"
proof -
  have h1: "sample_queue \<noteq> []"
    by (simp add: sample_queue_def)
  have jobs: "make_jobs sample_queue =
      [\<lparr> cmd = [''yay'', ''-S'', ''--noconfirm'', ''vim-typo''], sudo = True \<rparr>,
       \<lparr> cmd = [''flatpak'', ''install'', ''flathub'', ''-y'', ''--verbose'', ''org.gimp.GIMP''],
         sudo = False \<rparr>]"
    by (simp add: make_jobs_def sample_queue_def SOURCE_FLATPAK_def only_if_def)
  have h2: "\<forall>j \<in> set (make_jobs sample_queue). cancelled os_chain (job_request j)
           \<or> (\<exists>ls rc. popen os_chain (elevated (job_request j))
                          (stdin_text (password_of os_chain (job_request j))) = Exited ls rc)"
    by (simp add: jobs os_chain_def elevated_def job_request_def)
  note chain = queue_chain_runs_all_jobs [OF h1 h2, of Map.empty]
  note whole = chain [THEN conjunct2, THEN conjunct1]
  note refresh = chain [THEN conjunct2, THEN conjunct2, THEN conjunct2, THEN conjunct2,
                        THEN conjunct2]
  have "trace (snd (process_queue os_chain Map.empty sample_queue)) =
       [OpenDialog ''Processing Queue'', QueueButton ''Show Queue (0)'',
        UpdateStatus ''Queue cleared.'', AskPassword,
        UpdateStatus ''Running: sudo -S yay -S --noconfirm vim-typo'',
        LogConsole ''Running: sudo -S yay -S --noconfirm vim-typo'',
        Popen [''sudo'', ''-S'', ''yay'', ''-S'', ''--noconfirm'', ''vim-typo''],
        WriteStdin ''secret\<newline>'', LogLine ''error: target not found: vim-typo\<newline>'',
        LogConsole ''Process exited with code 1'', UpdateStatus ''Ready'',
        Complete ''error: target not found: vim-typo\<newline>'' None,
        UpdateStatus ''Running: flatpak install flathub -y --verbose org.gimp.GIMP'',
        LogConsole ''Running: flatpak install flathub -y --verbose org.gimp.GIMP'',
        Popen [''flatpak'', ''install'', ''flathub'', ''-y'', ''--verbose'', ''org.gimp.GIMP''],
        LogLine ''Installing org.gimp.GIMP\<newline>'', UpdateStatus ''Ready'',
        Complete ''Installing org.gimp.GIMP\<newline>'' None,
        LogLine ''\<newline>\<newline>All operations complete.\<newline>'', DialogComplete,
        LogConsole ''Package queue processing finished.'', RefreshInstalled True]"
    unfolding whole jobs
    by (simp add: exec_defs job_request_def os_chain_def home_cache_def
          str_int_def digit_def)
  moreover have "popen os_chain [''sudo'', ''-S'', ''yay'', ''-S'', ''--noconfirm'', ''vim-typo'']
         (Some ''secret\<newline>'')
       = Exited [''error: target not found: vim-typo\<newline>''] 1"
    "popen os_chain
         [''flatpak'', ''install'', ''flathub'', ''-y'', ''--verbose'', ''org.gimp.GIMP''] None
       = Exited [''Installing org.gimp.GIMP\<newline>''] 0"
    "popen os_chain [''pacman'', ''-Q''] None = FileNotFound"
    by (simp_all add: os_chain_def)
  ultimately show ?thesis
    using h1 jobs refresh by blast
qed

text \<open>
  C4. An elevated request whose password dialog is cancelled (the dialog returns
  \<open>None\<close>): \<open>Popen\<close> is not called, the completion callback (when one is given) is
  invoked once, with the empty transcript and the source tag, and no file changes.
\<close>

theorem cancelled_elevation_completes_without_spawn:
  assumes "requires_sudo r" and "get_input e (command r) = None"
  shows "filter is_Popen (trace (execute e fs r)) = []
       \<and> filter is_Complete (trace (execute e fs r))
           = only_if (callback r) [Complete [] (source r)]
       \<and> files_of (execute e fs r) = fs"
  using assms by (simp add: exec_defs)

theorem cancelled_elevation_completes_without_spawn_witness:
  "requires_sudo (job_request remove_job)
   \<and> get_input os_cancel (command (job_request remove_job)) = None
   \<and> filter is_Popen (trace (execute os_cancel Map.empty (job_request remove_job))) = []
   \<and> filter is_Complete (trace (execute os_cancel Map.empty (job_request remove_job)))
       = [Complete [] None]
   \<and> files_of (execute os_cancel Map.empty (job_request remove_job)) = Map.empty"
proof -
  have h1: "requires_sudo (job_request remove_job)"
    by (simp add: sample_defs)
  have h2: "get_input os_cancel (command (job_request remove_job)) = None"
    by (simp add: sample_defs)
  have cb: "callback (job_request remove_job)" "source (job_request remove_job) = None"
    by (simp_all add: sample_defs)
  show ?thesis
    using cancelled_elevation_completes_without_spawn [OF h1 h2, of Map.empty] h1 h2 cb
    by (simp add: only_if_def)
qed

text \<open>
  C5. A process that ended with a non-zero return code: when its transcript contains
  \<open>incorrect password\<close>, whatever else stands before and after it, the alert
  \<open>Authentication Failed\<close> is shown and no return code is logged; otherwise the return
  code is logged and that alert is not shown.
\<close>

theorem auth_failure_classification:
  assumes "\<not> cancelled e r" and "cache_hit e fs r = None"
    and "spawn e (elevated r) (stdin_text (password_of e r)) = Exited ls rc"
    and "rc \<noteq> 0"
  shows "if (\<exists>a b. concat (read_lines ls) = a @ ''incorrect password'' @ b)
         then ShowError ''Authentication Failed'' ''The password you entered was incorrect.''
                \<in> set (trace (execute e fs r))
              \<and> LogConsole ''Error: Incorrect password for sudo.''
                  \<in> set (trace (execute e fs r))
              \<and> (\<forall>m. LogConsole (''Process exited with code '' @ m)
                        \<notin> set (trace (execute e fs r)))
         else LogConsole (''Process exited with code '' @ str_int rc)
                \<in> set (trace (execute e fs r))
              \<and> (\<forall>m. ShowError ''Authentication Failed'' m \<notin> set (trace (execute e fs r)))"
proof -
  let ?out = "concat (read_lines ls)"
  obtain t fs' where tr: "try_run e fs r (elevated r) (password_of e r) = (t, fs', Some ?out)"
    and sub: "set (check_errors rc ?out) \<subseteq> set t"
    and alerts: "\<forall>a b. ShowError a b \<in> set t \<longrightarrow>
                   ShowError a b \<in> set (check_errors rc ?out) \<or> a = ''Command Not Found''"
    and codes: "\<forall>m. LogConsole (''Process exited with code '' @ m) \<in> set t \<longrightarrow>
                   LogConsole (''Process exited with code '' @ m) \<in> set (check_errors rc ?out)"
    using try_run_exited [OF assms(3)] by blast
  have ex: "trace (execute e fs r) =
      only_if (set_global_busy r) [SetBusy True] @ only_if (requires_sudo r) [AskPassword]
        @ [UpdateStatus (''Running: '' @ join_sp (elevated r)),
           LogConsole (''Running: '' @ join_sp (elevated r))]
        @ t @ [UpdateStatus ''Ready'']
        @ only_if (callback r) [Complete ?out (source r)]
        @ only_if (set_global_busy r) [SetBusy False]"
    using execute_miss [OF assms(1) assms(2) tr] by simp
  have inT: "\<And>a b. ShowError a b \<in> set (trace (execute e fs r)) \<longleftrightarrow> ShowError a b \<in> set t"
    by (auto simp: ex only_if_def)
  have inL: "\<And>m. LogConsole (''Process exited with code '' @ m) \<in> set (trace (execute e fs r))
                \<longleftrightarrow> LogConsole (''Process exited with code '' @ m) \<in> set t"
    by (auto simp: ex only_if_def)
  have tsub: "set t \<subseteq> set (trace (execute e fs r))"
    by (auto simp: ex)
  show ?thesis
  proof (cases "str_in ''incorrect password'' ?out")
    case True
    then have ce: "check_errors rc ?out =
        [LogConsole ''Error: Incorrect password for sudo.'',
         ShowError ''Authentication Failed'' ''The password you entered was incorrect.'']"
      using assms(4) by (simp add: check_errors_def)
    have "\<forall>m. LogConsole (''Process exited with code '' @ m) \<notin> set (trace (execute e fs r))"
      using codes inL ce by auto
    moreover have "ShowError ''Authentication Failed'' ''The password you entered was incorrect.''
                \<in> set (trace (execute e fs r))"
      using sub tsub ce by auto
    moreover have "LogConsole ''Error: Incorrect password for sudo.''
                \<in> set (trace (execute e fs r))"
      using sub tsub ce by auto
    ultimately show ?thesis using True by (simp add: str_in_iff)
  next
    case False
    then have ce: "check_errors rc ?out =
        [LogConsole (''Process exited with code '' @ str_int rc)]"
      using assms(4) by (simp add: check_errors_def)
    have "\<forall>m. ShowError ''Authentication Failed'' m \<notin> set (trace (execute e fs r))"
      using alerts inT ce by auto
    moreover have "LogConsole (''Process exited with code '' @ str_int rc)
                \<in> set (trace (execute e fs r))"
      using sub tsub ce by auto
    ultimately show ?thesis using False by (simp add: str_in_iff)
  qed
qed

theorem auth_failure_classification_witness:
  "\<not> cancelled os_wrong_password (job_request remove_job)
   \<and> cache_hit os_wrong_password Map.empty (job_request remove_job) = None
   \<and> spawn os_wrong_password (elevated (job_request remove_job))
         (stdin_text (password_of os_wrong_password (job_request remove_job)))
       = Exited [''[sudo] password for user: Sorry, try again.\<newline>'',
                 ''sudo: 1 incorrect password attempt\<newline>''] 1
   \<and> (1::int) \<noteq> 0
   \<and> ShowError ''Authentication Failed'' ''The password you entered was incorrect.''
       \<in> set (trace (execute os_wrong_password Map.empty (job_request remove_job)))
   \<and> LogConsole ''Process exited with code 1''
       \<notin> set (trace (execute os_wrong_password Map.empty (job_request remove_job)))"
proof -
  let ?ls = "[''[sudo] password for user: Sorry, try again.\<newline>'',
              ''sudo: 1 incorrect password attempt\<newline>'']"
  have h1: "\<not> cancelled os_wrong_password (job_request remove_job)"
    by (simp add: sample_defs cancelled_def password_of_def truthy_opt_def truthy_def)
  have h2: "cache_hit os_wrong_password Map.empty (job_request remove_job) = None"
    by (simp add: sample_defs cache_hit_def cache_path_def)
  have h3: "spawn os_wrong_password (elevated (job_request remove_job))
              (stdin_text (password_of os_wrong_password (job_request remove_job)))
            = Exited ?ls 1"
    by (simp add: sample_defs spawn_def elevated_def)
  have h4: "(1::int) \<noteq> 0" by simp
  have "str_in ''incorrect password'' (concat (read_lines ?ls))"
    by (simp add: read_lines_def CR_def NL_def)
  then have marker: "\<exists>a b. concat (read_lines ?ls) = a @ ''incorrect password'' @ b"
    by (simp only: str_in_iff)
  have "LogConsole (''Process exited with code '' @ ''1'')
       \<notin> set (trace (execute os_wrong_password Map.empty (job_request remove_job)))"
    using auth_failure_classification [OF h1 h2 h3 h4] marker by (simp only: if_True) blast
  then show ?thesis
    using auth_failure_classification [OF h1 h2 h3 h4] marker h1 h2 h3 by simp
qed

text \<open>
  C6, as claimed: for every request with a cache key and without \<open>force_refresh\<close>
  whose cache file exists, no process is started, the log callback gets the cached text
  once and the completion callback gets the cached transcript. Three requests of this
  kind for which the callbacks do not get the cached text: an elevated request whose
  password dialog is cancelled (the password is asked before the cache is looked at; the
  request logs the cancellation and completes with the empty transcript); a request whose
  cache file cannot be read (the read stands before the \<open>try\<close>, its exception ends the
  worker and the completion callback is not invoked); and a request whose cache file
  holds the line ending CR LF (the completion callback gets the text with LF).
\<close>

theorem cache_hit_overridden_by_cancellation:
  "cache_key sudo_cached_request = Some ''installed_pacman.cache''
   \<and> \<not> force_refresh sudo_cached_request
   \<and> cache_path os_cancel sudo_cached_request = Some installed_cache
   \<and> cached_files installed_cache = Some (Text ''vim 9.1-1\<newline>'')
   \<and> callback sudo_cached_request \<and> log_callback sudo_cached_request
   \<and> filter is_LogLine (trace (execute os_cancel cached_files sudo_cached_request))
       = [LogLine ''Sudo command cancelled: No password provided.\<newline>'']
   \<and> filter is_Complete (trace (execute os_cancel cached_files sudo_cached_request))
       = [Complete [] (Some ''pacman'')]
   \<and> cache_path os_ok (installed_request False) = Some installed_cache
   \<and> \<not> force_refresh (installed_request False) \<and> callback (installed_request False)
   \<and> unreadable_files installed_cache = Some Unreadable
   \<and> trace (execute os_ok unreadable_files (installed_request False)) = [SetBusy True]
   \<and> crlf_files installed_cache = Some (Text (''vim 9.1-1'' @ [CR, NL]))
   \<and> filter is_Complete (trace (execute os_ok crlf_files (installed_request False)))
       = [Complete (''vim 9.1-1'' @ [NL]) (Some ''pacman'')]
   \<and> ''vim 9.1-1'' @ [NL] \<noteq> ''vim 9.1-1'' @ [CR, NL]"
  by (simp add: exec_defs sample_defs)

text \<open>
  C6, amended: for every request with a cache key and without \<open>force_refresh\<close> whose
  cache file exists, \<open>Popen\<close> is not called and no file changes; and when the request is
  not cancelled at the password dialog and the cache file can be read, the log callback
  (when given) is invoked exactly once, with the whole text read from the cache file
  (line endings CR LF and CR read as LF; a file without carriage returns is read
  as it is), and the completion callback (when given) is invoked with that text.
\<close>

theorem cache_hit_skips_execution:
  assumes "cache_path e r = Some p" and "\<not> force_refresh r" and "fs p = Some ent"
  shows "filter is_Popen (trace (execute e fs r)) = []
       \<and> files_of (execute e fs r) = fs
       \<and> (\<forall>T. \<not> cancelled e r \<and> ent = Text T \<longrightarrow>
             filter is_LogLine (trace (execute e fs r))
               = only_if (log_callback r) [LogLine (universal_newlines T)]
           \<and> filter is_Complete (trace (execute e fs r))
               = only_if (callback r) [Complete (universal_newlines T) (source r)]
           \<and> (CR \<notin> set T \<longrightarrow> universal_newlines T = T))"
proof -
  have hit: "cache_hit e fs r = Some ent"
    using assms by (simp add: cache_hit_def)
  show ?thesis
  proof (cases "cancelled e r")
    case True
    then show ?thesis
      by (simp add: execute_cancelled [OF True] only_if_def)
  next
    case False
    show ?thesis
    proof (cases ent)
      case (Text T)
      then show ?thesis
        using False execute_hit [OF False hit [unfolded Text]] universal_newlines_id
        by (simp add: only_if_def)
    next
      case Unreadable
      then show ?thesis
        using False execute_unreadable [OF False hit [unfolded Unreadable]]
        by (simp add: only_if_def)
    qed
  qed
qed

theorem cache_hit_skips_execution_witness:
  "cache_path os_ok sudo_cached_request = Some installed_cache
   \<and> \<not> force_refresh sudo_cached_request
   \<and> cached_files installed_cache = Some (Text ''vim 9.1-1\<newline>'')
   \<and> \<not> cancelled os_ok sudo_cached_request
   \<and> log_callback sudo_cached_request \<and> callback sudo_cached_request
   \<and> filter is_Popen (trace (execute os_ok cached_files sudo_cached_request)) = []
   \<and> filter is_LogLine (trace (execute os_ok cached_files sudo_cached_request))
       = [LogLine ''vim 9.1-1\<newline>'']
   \<and> filter is_Complete (trace (execute os_ok cached_files sudo_cached_request))
       = [Complete ''vim 9.1-1\<newline>'' (Some ''pacman'')]"
proof -
  have h1: "cache_path os_ok sudo_cached_request = Some installed_cache"
    by (simp add: sample_defs cache_path_def path_join_def truthy_def)
  have h2: "\<not> force_refresh sudo_cached_request"
    by (simp add: sample_defs)
  have h3: "cached_files installed_cache = Some (Text ''vim 9.1-1\<newline>'')"
    by (simp add: cached_files_def)
  have h4: "\<not> cancelled os_ok sudo_cached_request"
    by (simp add: sample_defs cancelled_def password_of_def truthy_opt_def truthy_def)
  have cb: "log_callback sudo_cached_request" "callback sudo_cached_request"
    "source sudo_cached_request = Some ''pacman''"
    by (simp_all add: sample_defs)
  have rd: "universal_newlines ''vim 9.1-1\<newline>'' = ''vim 9.1-1\<newline>''"
    by (simp add: CR_def NL_def)
  note hit = cache_hit_skips_execution
               [where fs = cached_files and p = installed_cache, OF h1 h2 h3]
  note no_spawn = hit [THEN conjunct1]
  note served = hit [THEN conjunct2, THEN conjunct2, THEN spec,
                     of "''vim 9.1-1\<newline>''", THEN mp, OF conjI [OF h4 refl]]
  show ?thesis
    using h1 h2 h3 h4 cb no_spawn served [unfolded rd] by (simp add: only_if_def)
qed

text \<open>
  C7. With \<open>force_refresh\<close> there is no cache hit, whatever the cache holds: what the
  worker does is the same for every state of the cache, and unless the request is
  cancelled at the password dialog the process is started.
\<close>

theorem force_refresh_ignores_cache:
  assumes "force_refresh r"
  shows "cache_hit e fs r = None
       \<and> trace (execute e fs r) = trace (execute e fs' r)
       \<and> (\<not> cancelled e r \<longrightarrow>
            filter is_Popen (trace (execute e fs r)) = [Popen (elevated r)])"
proof -
  have miss: "\<And>f. cache_hit e f r = None"
    using assms by (simp add: cache_hit_def split: option.splits)
  have same: "trace (execute e fs r) = trace (execute e fs' r)"
  proof (cases "cancelled e r")
    case True
    then show ?thesis by (simp add: execute_cancelled)
  next
    case False
    obtain t f1 out where t1: "try_run e fs r (elevated r) (password_of e r) = (t, f1, out)"
      by (cases "try_run e fs r (elevated r) (password_of e r)")
    obtain t' f2 out' where t2: "try_run e fs' r (elevated r) (password_of e r) = (t', f2, out')"
      by (cases "try_run e fs' r (elevated r) (password_of e r)")
    have "t = t' \<and> out = out'"
      using try_run_trace_files [of e fs r "elevated r" "password_of e r" fs'] t1 t2 by simp
    then show ?thesis
      using execute_miss [OF False miss t1] execute_miss [OF False miss t2] by simp
  qed
  show ?thesis
    using miss same trace_filter_miss [OF _ miss] by blast
qed

theorem force_refresh_ignores_cache_witness:
  "force_refresh (installed_request True)
   \<and> cached_files installed_cache = Some (Text ''vim 9.1-1\<newline>'')
   \<and> cache_hit os_ok cached_files (installed_request True) = None
   \<and> \<not> cancelled os_ok (installed_request True)
   \<and> filter is_Popen (trace (execute os_ok cached_files (installed_request True)))
       = [Popen [''pacman'', ''-Q'']]"
proof -
  have h1: "force_refresh (installed_request True)"
    by (simp add: installed_request_def)
  have h2: "\<not> cancelled os_ok (installed_request True)"
    by (simp add: cancelled_def installed_request_def)
  have h3: "cached_files installed_cache = Some (Text ''vim 9.1-1\<newline>'')"
    by (simp add: cached_files_def)
  have c: "elevated (installed_request True) = [''pacman'', ''-Q'']"
    by (simp add: elevated_def installed_request_def)
  show ?thesis
    using force_refresh_ignores_cache [OF h1, of os_ok cached_files cached_files] h1 h2 h3 c
    by simp
qed

text \<open>
  C8. The cache round trip: a run with a cache key whose transcript \<open>T\<close> is not empty
  after trimming, and whose cache file can be written, leaves \<open>T\<close> in the cache file;
  a later request with the same key and without \<open>force_refresh\<close> reads exactly \<open>T\<close>:
  it does not start a process and completes with \<open>T\<close>.
\<close>

theorem cache_round_trip:
  assumes "\<not> cancelled e r" and "cache_hit e fs r = None" and "cache_path e r = Some p"
    and "spawn e (elevated r) (stdin_text (password_of e r)) = Exited ls rc"
    and "truthy (strip (concat (read_lines ls)))" and "open_w e p = NoFault"
    and "cache_key r' = cache_key r" and "\<not> force_refresh r'" and "\<not> cancelled e r'"
  shows "files_of (execute e fs r) p = Some (Text (concat (read_lines ls)))
       \<and> cache_hit e (files_of (execute e fs r)) r' = Some (Text (concat (read_lines ls)))
       \<and> filter is_Popen (trace (execute e (files_of (execute e fs r)) r')) = []
       \<and> filter is_Complete (trace (execute e (files_of (execute e fs r)) r'))
           = only_if (callback r') [Complete (concat (read_lines ls)) (source r')]"
proof -
  let ?T = "concat (read_lines ls)"
  have put: "cache_put e fs r (elevated r) ?T = ([], fs(p \<mapsto> Text ?T))"
    using assms(3,5,6) by (simp add: cache_put_def)
  obtain t where tr: "try_run e fs r (elevated r) (password_of e r)
                        = (t, fs(p \<mapsto> Text ?T), Some ?T)"
    using assms(4) put by (simp add: try_run_def Let_def)
  have files: "files_of (execute e fs r) = fs(p \<mapsto> Text ?T)"
    using execute_miss [OF assms(1,2) tr] by simp
  have "cache_path e r' = Some p"
    using assms(3,7) by (simp add: cache_path_def)
  then have hit: "cache_hit e (files_of (execute e fs r)) r' = Some (Text ?T)"
    using assms(8) files by (simp add: cache_hit_def)
  show ?thesis
    using files hit execute_hit [OF assms(9) hit]
    by (simp add: only_if_def read_lines_reread)
qed

theorem cache_round_trip_witness:
  "\<not> cancelled os_ok (installed_request True)
   \<and> cache_hit os_ok Map.empty (installed_request True) = None
   \<and> cache_path os_ok (installed_request True) = Some installed_cache
   \<and> spawn os_ok (elevated (installed_request True))
         (stdin_text (password_of os_ok (installed_request True)))
       = Exited [''vim 9.1-1\<newline>''] 0
   \<and> truthy (strip (concat (read_lines [''vim 9.1-1\<newline>''])))
   \<and> open_w os_ok installed_cache = NoFault
   \<and> cache_key (installed_request False) = cache_key (installed_request True)
   \<and> \<not> force_refresh (installed_request False)
   \<and> \<not> cancelled os_ok (installed_request False)
   \<and> files_of (execute os_ok Map.empty (installed_request True)) installed_cache
       = Some (Text ''vim 9.1-1\<newline>'')
   \<and> filter is_Complete
        (trace (execute os_ok (files_of (execute os_ok Map.empty (installed_request True)))
                  (installed_request False)))
       = [Complete ''vim 9.1-1\<newline>'' (Some ''pacman'')]"
proof -
  have h1: "\<not> cancelled os_ok (installed_request True)"
    by (simp add: cancelled_def installed_request_def)
  have h2: "cache_hit os_ok Map.empty (installed_request True) = None"
    by (simp add: cache_hit_def installed_request_def split: option.splits)
  have h3: "cache_path os_ok (installed_request True) = Some installed_cache"
    by (simp add: sample_defs cache_path_def path_join_def truthy_def)
  have h4: "spawn os_ok (elevated (installed_request True))
         (stdin_text (password_of os_ok (installed_request True)))
       = Exited [''vim 9.1-1\<newline>''] 0"
    by (simp add: sample_defs spawn_def elevated_def)
  have h5: "truthy (strip (concat (read_lines [''vim 9.1-1\<newline>''])))"
    by (simp add: truthy_def strip_def isspace_def read_lines_def CR_def NL_def)
  have h6: "open_w os_ok installed_cache = NoFault"
    by (simp add: os_ok_def)
  have h7: "cache_key (installed_request False) = cache_key (installed_request True)"
    by (simp add: installed_request_def)
  have h8: "\<not> force_refresh (installed_request False)"
    by (simp add: installed_request_def)
  have h9: "\<not> cancelled os_ok (installed_request False)"
    by (simp add: cancelled_def installed_request_def)
  have cb: "callback (installed_request False)"
    "source (installed_request False) = Some ''pacman''"
    by (simp_all add: installed_request_def)
  have out: "concat (read_lines [''vim 9.1-1\<newline>'']) = ''vim 9.1-1\<newline>''"
    by (simp add: read_lines_def CR_def NL_def)
  show ?thesis
    using cache_round_trip [OF h1 h2 h3 h4 h5 h6 h7 h8 h9] h1 h2 h3 h4 h5 h6 h7 h8 h9 cb
    by (simp add: only_if_def out)
qed

text \<open>
  C9. The password of an elevated run reaches the input of the process only, followed by
  a newline. Two runs that differ in the password alone, with a process that behaves the
  same, leave the same files and have the same effects apart from the text written to the
  input of the process; and that text is the password and a newline, written once to
  every process that is started (none is started on a cache hit or when \<open>Popen\<close> raises).
\<close>

theorem secret_only_reaches_stdin:
  assumes "requires_sudo r" and "get_input e (command r) = Some p1"
    and "p1 \<noteq> []" and "p2 \<noteq> []"
    and "popen e (elevated r) (Some (p2 @ [NL])) = popen e (elevated r) (Some (p1 @ [NL]))"
  shows "files_of (execute (e\<lparr>get_input := (\<lambda>c. Some p2)\<rparr>) fs r) = files_of (execute e fs r)
       \<and> filter (\<lambda>x. \<not> is_WriteStdin x) (trace (execute (e\<lparr>get_input := (\<lambda>c. Some p2)\<rparr>) fs r))
           = filter (\<lambda>x. \<not> is_WriteStdin x) (trace (execute e fs r))
       \<and> filter is_WriteStdin (trace (execute e fs r))
           = (case cache_hit e fs r of
                Some ent \<Rightarrow> []
              | None \<Rightarrow>
                  (case popen e (elevated r) (Some (p1 @ [NL])) of
                     FileNotFound \<Rightarrow> []
                   | SpawnFailed err \<Rightarrow> []
                   | Failed ls err \<Rightarrow> [WriteStdin (p1 @ [NL])]
                   | Exited ls rc \<Rightarrow> [WriteStdin (p1 @ [NL])]))"
proof -
  let ?e2 = "e\<lparr>get_input := (\<lambda>c. Some p2)\<rparr>"
  let ?c = "elevated r"
  have pw1: "password_of e r = Some p1" and pw2: "password_of ?e2 r = Some p2"
    using assms(1,2) by (simp_all add: password_of_def)
  have nc1: "\<not> cancelled e r" and nc2: "\<not> cancelled ?e2 r"
    using assms(3,4) pw1 pw2 by (simp_all add: cancelled_def truthy_opt_def truthy_def)
  have st1: "stdin_text (Some p1) = Some (p1 @ [NL])"
    and st2: "stdin_text (Some p2) = Some (p2 @ [NL])"
    using assms(3,4) by (simp_all add: stdin_text_def truthy_def)
  have hit: "cache_hit ?e2 fs r = cache_hit e fs r"
    using cache_path_cong [of ?e2 e r] by (simp add: cache_hit_def)
  have ne: "?c \<noteq> []"
    using assms(1) by (simp add: elevated_def)
  show ?thesis
  proof (cases "cache_hit e fs r")
    case (Some ent)
    show ?thesis
    proof (cases ent)
      case (Text T)
      then show ?thesis
        using Some execute_hit [OF nc1, of fs T] execute_hit [OF nc2, of fs T] hit
        by (simp add: only_if_def)
    next
      case Unreadable
      then show ?thesis
        using Some execute_unreadable [OF nc1, of fs] execute_unreadable [OF nc2, of fs] hit
        by (simp add: only_if_def)
    qed
  next
    case None
    obtain t1 f1 o1 where t1: "try_run e fs r ?c (Some p1) = (t1, f1, o1)"
      by (cases "try_run e fs r ?c (Some p1)")
    obtain t2 f2 o2 where t2: "try_run ?e2 fs r ?c (Some p2) = (t2, f2, o2)"
      by (cases "try_run ?e2 fs r ?c (Some p2)")
    have sp: "spawn ?e2 ?c (stdin_text (Some p2)) = spawn e ?c (stdin_text (Some p1))"
      using assms(5) st1 st2 by (simp add: spawn_def)
    have eq: "filter (\<lambda>x. \<not> is_WriteStdin x) t2 = filter (\<lambda>x. \<not> is_WriteStdin x) t1"
      "f2 = f1" "o2 = o1"
      using try_run_secret [OF sp, of fs r] t1 t2 by simp_all
    have w: "filter is_WriteStdin t1
           = (case popen e ?c (Some (p1 @ [NL])) of
                FileNotFound \<Rightarrow> []
              | SpawnFailed err \<Rightarrow> []
              | Failed ls err \<Rightarrow> [WriteStdin (p1 @ [NL])]
              | Exited ls rc \<Rightarrow> [WriteStdin (p1 @ [NL])])"
      using try_run_stdin [of e fs r ?c "Some p1"] t1 ne
      by (simp add: spawn_def st1 split: outcome.splits)
    have x1: "execute e fs r = \<lparr> trace = only_if (set_global_busy r) [SetBusy True]
               @ only_if (requires_sudo r) [AskPassword]
               @ [UpdateStatus (''Running: '' @ join_sp (elevated r)),
                  LogConsole (''Running: '' @ join_sp (elevated r))]
               @ t1 @ [UpdateStatus ''Ready'']
               @ (case o1 of
                    None \<Rightarrow> []
                  | Some output_str \<Rightarrow> only_if (callback r) [Complete output_str (source r)])
               @ only_if (set_global_busy r) [SetBusy False],
       files_of = f1 \<rparr>"
      using execute_miss [OF nc1 None] t1 pw1 by simp
    have x2: "execute ?e2 fs r = \<lparr> trace = only_if (set_global_busy r) [SetBusy True]
               @ only_if (requires_sudo r) [AskPassword]
               @ [UpdateStatus (''Running: '' @ join_sp (elevated r)),
                  LogConsole (''Running: '' @ join_sp (elevated r))]
               @ t2 @ [UpdateStatus ''Ready'']
               @ (case o2 of
                    None \<Rightarrow> []
                  | Some output_str \<Rightarrow> only_if (callback r) [Complete output_str (source r)])
               @ only_if (set_global_busy r) [SetBusy False],
       files_of = f2 \<rparr>"
      using execute_miss [OF nc2] None hit t2 pw2 by simp
    have other: "files_of (execute ?e2 fs r) = files_of (execute e fs r)
       \<and> filter (\<lambda>x. \<not> is_WriteStdin x) (trace (execute ?e2 fs r))
           = filter (\<lambda>x. \<not> is_WriteStdin x) (trace (execute e fs r))"
      using eq by (auto simp: x1 x2 only_if_def split: option.splits)
    have written: "filter is_WriteStdin (trace (execute e fs r)) = filter is_WriteStdin t1"
      by (auto simp: x1 only_if_def split: option.splits)
    show ?thesis
      using other written w None by simp
  qed
qed

theorem secret_only_reaches_stdin_witness:
  "requires_sudo (job_request remove_job)
   \<and> get_input os_ok (command (job_request remove_job)) = Some ''secret''
   \<and> ''secret'' \<noteq> [] \<and> ''hunter2'' \<noteq> []
   \<and> popen os_ok (elevated (job_request remove_job)) (Some (''hunter2'' @ [NL]))
       = popen os_ok (elevated (job_request remove_job)) (Some (''secret'' @ [NL]))
   \<and> files_of (execute (os_ok\<lparr>get_input := (\<lambda>c. Some ''hunter2'')\<rparr>) Map.empty
                 (job_request remove_job))
       = files_of (execute os_ok Map.empty (job_request remove_job))
   \<and> filter (\<lambda>x. \<not> is_WriteStdin x)
        (trace (execute (os_ok\<lparr>get_input := (\<lambda>c. Some ''hunter2'')\<rparr>) Map.empty
                  (job_request remove_job)))
       = filter (\<lambda>x. \<not> is_WriteStdin x)
           (trace (execute os_ok Map.empty (job_request remove_job)))
   \<and> filter is_WriteStdin (trace (execute os_ok Map.empty (job_request remove_job)))
       = [WriteStdin ''secret\<newline>'']"
proof -
  have h1: "requires_sudo (job_request remove_job)"
    by (simp add: sample_defs)
  have h2: "get_input os_ok (command (job_request remove_job)) = Some ''secret''"
    by (simp add: sample_defs)
  have h3: "''secret'' \<noteq> []" and h4: "''hunter2'' \<noteq> []"
    by simp_all
  have h5: "popen os_ok (elevated (job_request remove_job)) (Some (''hunter2'' @ [NL]))
       = popen os_ok (elevated (job_request remove_job)) (Some (''secret'' @ [NL]))"
    by (simp add: os_ok_def)
  have miss: "cache_hit os_ok Map.empty (job_request remove_job) = None"
    by (rule job_cache_miss)
  have ended: "popen os_ok (elevated (job_request remove_job)) (Some (''secret'' @ [NL]))
       = Exited [''vim 9.1-1\<newline>''] 0"
    by (simp add: os_ok_def)
  show ?thesis
    using secret_only_reaches_stdin [OF h1 h2 h3 h4 h5, of Map.empty] h1 h2 h5 miss ended
    by (simp add: NL_def)
qed

text \<open>
  C10. An elevated request whose password dialog is confirmed with no text (the dialog
  returns the empty string) is treated as a cancellation: the worker does what it does
  when the dialog returns \<open>None\<close>, \<open>Popen\<close> is not called, nothing is written to a process
  and the completion callback (when given) gets the empty transcript.
\<close>

theorem empty_password_is_cancellation:
  assumes "requires_sudo r" and "get_input e (command r) = Some []"
  shows "execute (e\<lparr>get_input := (\<lambda>c. None)\<rparr>) fs r = execute e fs r
       \<and> filter is_Popen (trace (execute e fs r)) = []
       \<and> filter is_WriteStdin (trace (execute e fs r)) = []
       \<and> filter is_Complete (trace (execute e fs r))
           = only_if (callback r) [Complete [] (source r)]"
  using assms by (simp add: exec_defs)

theorem empty_password_is_cancellation_witness:
  "requires_sudo (job_request remove_job)
   \<and> get_input os_empty (command (job_request remove_job)) = Some []
   \<and> filter is_Popen (trace (execute os_empty Map.empty (job_request remove_job))) = []
   \<and> filter is_Complete (trace (execute os_empty Map.empty (job_request remove_job)))
       = [Complete [] None]"
proof -
  have h1: "requires_sudo (job_request remove_job)"
    by (simp add: sample_defs)
  have h2: "get_input os_empty (command (job_request remove_job)) = Some []"
    by (simp add: sample_defs)
  have cb: "callback (job_request remove_job)" "source (job_request remove_job) = None"
    by (simp_all add: sample_defs)
  show ?thesis
    using empty_password_is_cancellation [OF h1 h2, of Map.empty] h1 h2 cb
    by (simp add: only_if_def)
qed

end
